theory Spec2Isabelle
  imports Complex_Main "HOL-Library.Sublist"
begin

section \<open>JavaScript values of a request\<close>

text \<open>
  The invoice controller (\<^verbatim>\<open>createFactura\<close>, \<^verbatim>\<open>getFacturasByUser\<close>,
  \<^verbatim>\<open>updateFactura\<close>, \<^verbatim>\<open>deleteArchivoFactura\<close>,
  \<^verbatim>\<open>getResumenFacturasPorYear\<close>) reads the fields of \<^verbatim>\<open>req.body\<close> and
  \<^verbatim>\<open>req.query\<close> and tests them with \<^verbatim>\<open>!x\<close>, \<^verbatim>\<open>x || y\<close> and
  \<^verbatim>\<open>x === undefined\<close>. A body field is a JavaScript value; a field that the request does
  not carry reads as \<^verbatim>\<open>undefined\<close>. Numbers are the numbers a JSON body can carry (no
  NaN); a non-primitive value (array, object) is \<open>JObject\<close>.
\<close>

datatype jsval =
    JUndefined
  | JNull
  | JBool bool
  | JNum rat
  | JStr string
  | JObject

text \<open>ToBoolean: what \<^verbatim>\<open>!x\<close> and \<^verbatim>\<open>x || y\<close> test.\<close>

fun truthy :: "jsval \<Rightarrow> bool" where
  "truthy JUndefined = False"
| "truthy JNull = False"
| "truthy (JBool b) = b"
| "truthy (JNum n) = (n \<noteq> 0)"
| "truthy (JStr s) = (s \<noteq> [])"
| "truthy JObject = True"

text \<open>\<^verbatim>\<open>x || y\<close>\<close>

definition js_or :: "jsval \<Rightarrow> jsval \<Rightarrow> jsval" where
  "js_or x y = (if truthy x then x else y)"

section \<open>The database\<close>

text \<open>
  Modelled from the spec: the declaration of table \<^verbatim>\<open>facturas\<close> is not among the sources.
  A row has the columns that the controller's statements name, with the types of the
  specification's data model: a system-assigned id, the owning user, a nullable client
  reference, the issue date, the amount, the paid/unpaid status, and the optional number,
  description and file name. Dates are calendar dates of the common era. The controller never
  writes NULL to \<^verbatim>\<open>fecha_emision\<close> or \<^verbatim>\<open>importe\<close> (creation requires them truthy, an
  update keeps the stored value), so these two columns hold a value; the others are nullable.
\<close>

record date =
  year :: nat
  month :: nat
  day :: nat

record factura =
  id :: nat
  usuario_id :: nat
  cliente_id :: "int option"
  fecha_emision :: date
  importe :: rat
  estado :: "bool option"
  numero :: "string option"
  descripcion :: "string option"
  archivo :: "string option"

record factura_joined = factura +
  cliente_nombre :: "string option"

record factura_url = factura_joined +
  archivo_url :: "string option"

text \<open>
  The database: the rows of \<^verbatim>\<open>facturas\<close>, the rows of \<^verbatim>\<open>clientes\<close> as pairs of
  the primary key \<^verbatim>\<open>id\<close> and \<^verbatim>\<open>nombre\<close>, and the sequence behind the serial
  \<^verbatim>\<open>id\<close> of \<^verbatim>\<open>facturas\<close>.
\<close>

record db =
  facturas :: "factura list"
  clientes :: "(int \<times> string) list"
  seq :: nat

text \<open>
  What PostgreSQL does with a query parameter is not code of this repository: the input
  conversion of each column type (applied to what the driver sends for a JavaScript value),
  and the meaning of the text spliced after \<^verbatim>\<open>ORDER BY\<close>. They are parameters of the
  model. \<open>None\<close> is the server rejecting the value or the text with an error.
\<close>

record pg =
  int_in :: "jsval \<Rightarrow> int option"
  date_in :: "jsval \<Rightarrow> date option"
  numeric_in :: "jsval \<Rightarrow> rat option"
  bool_in :: "jsval \<Rightarrow> bool option"
  text_in :: "jsval \<Rightarrow> string option"
  order_by :: "string \<Rightarrow> (factura_joined \<Rightarrow> factura_joined \<Rightarrow> bool) option"

text \<open>An error thrown by \<^verbatim>\<open>pool.query\<close>, with the two fields the controller reads.\<close>

record pg_error =
  code :: string
  constraint_name :: string

definition invalid_input :: pg_error where
  "invalid_input = \<lparr>code = ''22P02'', constraint_name = ''''\<rparr>"

definition not_null_violation :: pg_error where
  "not_null_violation = \<lparr>code = ''23502'', constraint_name = ''''\<rparr>"

definition unique_violation :: pg_error where
  "unique_violation = \<lparr>code = ''23505'', constraint_name = ''facturas_numero_key''\<rparr>"

text \<open>
  A parameter of a statement is a value of the request, or a value read from the row and sent
  back as it is (\<^verbatim>\<open>cliente_id || facturaResult.rows[0].cliente_id\<close>); the latter is stored
  as it was.
\<close>

datatype 'a arg = Fresh jsval | Kept 'a

text \<open>
  A parameter bound to a nullable column: the driver sends \<^verbatim>\<open>undefined\<close> and
  \<^verbatim>\<open>null\<close> as NULL, anything else goes through the column type's input conversion.
\<close>

fun nullable :: "(jsval \<Rightarrow> 'a option) \<Rightarrow> 'a option arg \<Rightarrow> pg_error + 'a option" where
  "nullable conv (Kept x) = Inr x"
| "nullable conv (Fresh v) =
     (if v = JUndefined \<or> v = JNull then Inr None
      else case conv v of None \<Rightarrow> Inl invalid_input | Some x \<Rightarrow> Inr (Some x))"

text \<open>A parameter bound to a column that holds a value.\<close>

fun required :: "(jsval \<Rightarrow> 'a option) \<Rightarrow> 'a arg \<Rightarrow> pg_error + 'a" where
  "required conv (Kept x) = Inr x"
| "required conv (Fresh v) =
     (if v = JUndefined \<or> v = JNull then Inl not_null_violation
      else case conv v of None \<Rightarrow> Inl invalid_input | Some x \<Rightarrow> Inr x)"

text \<open>The first failure is the failure of the whole.\<close>

fun and_then :: "'e + 'a \<Rightarrow> ('a \<Rightarrow> 'e + 'b) \<Rightarrow> 'e + 'b" where
  "and_then (Inl e) f = Inl e"
| "and_then (Inr x) f = f x"

text \<open>
  The seven column parameters of the INSERT and of the UPDATE, and their conversion to a row
  with the given \<^verbatim>\<open>id\<close> and \<^verbatim>\<open>usuario_id\<close>.
\<close>

record params =
  p_cliente_id :: "int option arg"
  p_fecha_emision :: "date arg"
  p_importe :: "rat arg"
  p_estado :: "bool option arg"
  p_numero :: "string option arg"
  p_descripcion :: "string option arg"
  p_archivo :: "string option arg"

definition bind_params :: "pg \<Rightarrow> nat \<Rightarrow> nat \<Rightarrow> params \<Rightarrow> pg_error + factura" where
  "bind_params g i u p =
     and_then (nullable (int_in g) (p_cliente_id p)) (\<lambda>c.
     and_then (required (date_in g) (p_fecha_emision p)) (\<lambda>f.
     and_then (required (numeric_in g) (p_importe p)) (\<lambda>a.
     and_then (nullable (bool_in g) (p_estado p)) (\<lambda>s.
     and_then (nullable (text_in g) (p_numero p)) (\<lambda>n.
     and_then (nullable (text_in g) (p_descripcion p)) (\<lambda>d.
     and_then (nullable (text_in g) (p_archivo p)) (\<lambda>x.
       Inr \<lparr>id = i, usuario_id = u, cliente_id = c, fecha_emision = f, importe = a,
            estado = s, numero = n, descripcion = d, archivo = x\<rparr>)))))))"

text \<open>
  Modelled from the spec: the declaration of the constraint is not among the sources. The
  number of an invoice, when it is not NULL, is unique across the system; the controller's
  error handler names the constraint, \<^verbatim>\<open>facturas_numero_key\<close>.
\<close>

definition numero_taken :: "factura list \<Rightarrow> string option \<Rightarrow> bool" where
  "numero_taken rows n = (n \<noteq> None \<and> n \<in> set (map numero rows))"

text \<open>
  \<^verbatim>\<open>INSERT INTO facturas (...) VALUES ($1, ..., $8) RETURNING *\<close>. A value the column type
  rejects fails the statement before it runs. The row takes the next value of the sequence,
  also when the unique index then refuses the row (a sequence is not rolled back).
\<close>

definition insert_factura :: "pg \<Rightarrow> nat \<Rightarrow> params \<Rightarrow> db \<Rightarrow> (pg_error + factura) \<times> db" where
  "insert_factura g u p d =
     (case bind_params g (seq d) u p of
        Inl e \<Rightarrow> (Inl e, d)
      | Inr row \<Rightarrow>
          if numero_taken (facturas d) (numero row)
          then (Inl unique_violation, d\<lparr>seq := Suc (seq d)\<rparr>)
          else (Inr row, d\<lparr>facturas := facturas d @ [row], seq := Suc (seq d)\<rparr>))"

text \<open>
  \<^verbatim>\<open>SELECT * FROM facturas WHERE id = $1 AND usuario_id = $2\<close>, first row. The route
  parameter \<^verbatim>\<open>id\<close> is text that the server reads as an integer.
\<close>

definition select_factura :: "pg \<Rightarrow> string \<Rightarrow> nat \<Rightarrow> db \<Rightarrow> pg_error + factura option" where
  "select_factura g i u d =
     (case int_in g (JStr i) of
        None \<Rightarrow> Inl invalid_input
      | Some k \<Rightarrow> Inr (find (\<lambda>r. int (id r) = k \<and> usuario_id r = u) (facturas d)))"

text \<open>
  \<^verbatim>\<open>UPDATE facturas SET cliente_id = $1, ..., archivo = $7 WHERE id = $8 AND usuario_id = $9
  RETURNING *\<close>, for the row \<open>old\<close> that \<open>select_factura\<close> returned. The unique index compares
  the new \<^verbatim>\<open>numero\<close> with the other rows.
\<close>

definition update_factura :: "pg \<Rightarrow> factura \<Rightarrow> params \<Rightarrow> db \<Rightarrow> pg_error + (factura \<times> db)" where
  "update_factura g old p d =
     (case bind_params g (id old) (usuario_id old) p of
        Inl e \<Rightarrow> Inl e
      | Inr row \<Rightarrow>
          if numero_taken (filter (\<lambda>r. id r \<noteq> id old) (facturas d)) (numero row)
          then Inl unique_violation
          else Inr (row, d\<lparr>facturas :=
                 map (\<lambda>r. if id r = id old \<and> usuario_id r = usuario_id old then row else r)
                   (facturas d)\<rparr>))"

text \<open>\<^verbatim>\<open>UPDATE facturas SET archivo = NULL WHERE id = $1 AND usuario_id = $2\<close>\<close>

definition clear_archivo :: "factura \<Rightarrow> db \<Rightarrow> db" where
  "clear_archivo old d =
     d\<lparr>facturas :=
       map (\<lambda>r. if id r = id old \<and> usuario_id r = usuario_id old then r\<lparr>archivo := None\<rparr> else r)
         (facturas d)\<rparr>"

section \<open>The upload directory\<close>

text \<open>
  \<^verbatim>\<open>path.join(__dirname, "..", "uploads", String(usuario_id), archivo)\<close>: a file of the
  upload directory is named by the user and the file name. A file is there or not, and a file
  that is there can be removed or not (no permission, busy); \<^verbatim>\<open>fs.unlink\<close> fails on a
  missing file and on one that cannot be removed.
\<close>

type_synonym path = "nat \<times> string"

datatype node = Plain | Locked

type_synonym fs = "path \<rightharpoonup> node"

definition unlink :: "fs \<Rightarrow> path \<Rightarrow> fs option" where
  "unlink f p = (case f p of Some Plain \<Rightarrow> Some (f(p := None)) | _ \<Rightarrow> None)"

section \<open>Responses\<close>

text \<open>
  The messages of the controller, by their text in the source:
  \<^item> \<open>Obligatorios\<close>: "Fecha de emision, importe, cliente y estado son obligatorios";
  \<^item> \<open>Factura_creada\<close>: "Factura creada con exito";
  \<^item> \<open>Numero_repetido\<close>: "Ya existe una factura con ese numero.";
  \<^item> \<open>Error_servidor\<close>: "Error en el servidor";
  \<^item> \<open>Error_obtener\<close>: "Error al obtener las facturas.";
  \<^item> \<open>No_encontrada\<close>: "Factura no encontrada";
  \<^item> \<open>Factura_actualizada\<close>: "Factura actualizada con exito";
  \<^item> \<open>Sin_archivo\<close>: "La factura no tiene archivo asociado";
  \<^item> \<open>Error_archivo\<close>: "Error al eliminar el archivo del sistema";
  \<^item> \<open>Archivo_eliminado\<close>: "Archivo eliminado correctamente";
  \<^item> \<open>Anio_invalido\<close>: "Ano invalido" (the source writes the accents and the tilde).
\<close>

datatype message =
    Obligatorios | Factura_creada | Numero_repetido | Error_servidor | Error_obtener
  | No_encontrada | Factura_actualizada | Sin_archivo | Error_archivo | Archivo_eliminado
  | Anio_invalido

record mes_out =
  mes :: string
  total :: int
  pagadas :: int
  noPagadas :: int
  totalImporte :: rat

record resumen_out =
  r_totalFacturas :: int
  r_pagadas :: int
  r_noPagadas :: int
  r_totalImporte :: rat
  r_importePagadas :: rat
  r_importeNoPagadas :: rat
  r_promedioImporte :: rat
  r_promedioPagadas :: rat
  r_promedioNoPagadas :: rat

text \<open>The JSON body of a response, and the response with its HTTP status.\<close>

datatype payload =
    Message message
  | Message_factura message factura
  | Facturas_total "factura_url list" int
  | Resumen_anual int resumen_out "mes_out list"

type_synonym response = "nat \<times> payload"

section \<open>createFactura\<close>

text \<open>The six fields that \<^verbatim>\<open>createFactura\<close> and \<^verbatim>\<open>updateFactura\<close> read from \<^verbatim>\<open>req.body\<close>.\<close>

record body =
  b_cliente_id :: jsval
  b_fecha_emision :: jsval
  b_importe :: jsval
  b_estado :: jsval
  b_numero :: jsval
  b_descripcion :: jsval

text \<open>
  The parameter array of the INSERT after \<^verbatim>\<open>usuario_id\<close>, with
  \<^verbatim>\<open>const archivo = req.file ? req.file.filename : null\<close>.
\<close>

definition createParams :: "body \<Rightarrow> string option \<Rightarrow> params" where
  "createParams b upload =
     (let archivo = (case upload of Some f \<Rightarrow> JStr f | None \<Rightarrow> JNull) in
      \<lparr>p_cliente_id = Fresh (b_cliente_id b),
       p_fecha_emision = Fresh (b_fecha_emision b),
       p_importe = Fresh (b_importe b),
       p_estado = Fresh (b_estado b),
       p_numero = Fresh (js_or (b_numero b) JNull),
       p_descripcion = Fresh (js_or (b_descripcion b) JNull),
       p_archivo = Fresh (js_or archivo JNull)\<rparr>)"

text \<open>
  \<open>u\<close> is \<^verbatim>\<open>req.user.id\<close>, \<open>b\<close> is \<^verbatim>\<open>req.body\<close>, \<open>upload\<close> is
  \<^verbatim>\<open>req.file.filename\<close> when the request carries a file. The second component of the
  result is the database after the request.
\<close>

definition createFactura :: "pg \<Rightarrow> nat \<Rightarrow> body \<Rightarrow> string option \<Rightarrow> db \<Rightarrow> response \<times> db" where
  "createFactura g u b upload d =
     (if \<not> truthy (b_fecha_emision b) \<or> \<not> truthy (b_importe b) \<or> b_estado b = JUndefined
         \<or> \<not> truthy (b_cliente_id b)
      then ((400, Message Obligatorios), d)
      else
        case insert_factura g u (createParams b upload) d of
          (Inr row, d') \<Rightarrow> ((201, Message_factura Factura_creada row), d')
        | (Inl e, d') \<Rightarrow>
            if code e = ''23505'' \<and> constraint_name e = ''facturas_numero_key''
            then ((400, Message Numero_repetido), d')
            else ((500, Message Error_servidor), d'))"

section \<open>updateFactura\<close>

text \<open>\<^verbatim>\<open>x || stored\<close> and \<^verbatim>\<open>x !== undefined ? x : stored\<close>\<close>

definition or_kept :: "jsval \<Rightarrow> 'a \<Rightarrow> 'a arg" where
  "or_kept x stored = (if truthy x then Fresh x else Kept stored)"

definition defined_or_kept :: "jsval \<Rightarrow> 'a \<Rightarrow> 'a arg" where
  "defined_or_kept x stored = (if x \<noteq> JUndefined then Fresh x else Kept stored)"

text \<open>A text column as \<^verbatim>\<open>rows[0]\<close> has it: a string or \<^verbatim>\<open>null\<close>.\<close>

definition js_text :: "string option \<Rightarrow> jsval" where
  "js_text x = (case x of None \<Rightarrow> JNull | Some s \<Rightarrow> JStr s)"

text \<open>
  \<^verbatim>\<open>archivoActual\<close>: the stored file name, or the name of the uploaded file when the
  request carries one; and \<^verbatim>\<open>archivoActual || null\<close>.
\<close>

definition archivoActual :: "factura \<Rightarrow> string option \<Rightarrow> string option arg" where
  "archivoActual old upload =
     (case upload of
        None \<Rightarrow> if truthy (js_text (archivo old)) then Kept (archivo old) else Fresh JNull
      | Some n \<Rightarrow> Fresh (js_or (JStr n) JNull))"

text \<open>The parameter array of the UPDATE before \<^verbatim>\<open>id\<close> and \<^verbatim>\<open>usuario_id\<close>.\<close>

definition updateParams :: "body \<Rightarrow> factura \<Rightarrow> string option \<Rightarrow> params" where
  "updateParams b old upload =
     \<lparr>p_cliente_id = or_kept (b_cliente_id b) (cliente_id old),
      p_fecha_emision = or_kept (b_fecha_emision b) (fecha_emision old),
      p_importe = or_kept (b_importe b) (importe old),
      p_estado = defined_or_kept (b_estado b) (estado old),
      p_numero = defined_or_kept (b_numero b) (numero old),
      p_descripcion = defined_or_kept (b_descripcion b) (descripcion old),
      p_archivo = archivoActual old upload\<rparr>"

text \<open>
  When the request carries a file and the invoice has one, the old file is removed before
  the UPDATE runs; a failure to remove it is only logged.
\<close>

definition replace_file :: "nat \<Rightarrow> factura \<Rightarrow> string option \<Rightarrow> fs \<Rightarrow> fs" where
  "replace_file u old upload f =
     (case upload of
        None \<Rightarrow> f
      | Some n \<Rightarrow>
          (case archivo old of
             None \<Rightarrow> f
           | Some a \<Rightarrow>
               if a = [] then f
               else (case unlink f (u, a) of None \<Rightarrow> f | Some f' \<Rightarrow> f')))"

text \<open>\<open>i\<close> is \<^verbatim>\<open>req.params.id\<close>.\<close>

definition updateFactura ::
  "pg \<Rightarrow> nat \<Rightarrow> string \<Rightarrow> body \<Rightarrow> string option \<Rightarrow> db \<times> fs \<Rightarrow> response \<times> db \<times> fs" where
  "updateFactura g u i b upload w =
     (case select_factura g i u (fst w) of
        Inl e \<Rightarrow> ((500, Message Error_servidor), w)
      | Inr None \<Rightarrow> ((404, Message No_encontrada), w)
      | Inr (Some old) \<Rightarrow>
          (case update_factura g old (updateParams b old upload) (fst w) of
             Inl e \<Rightarrow> ((500, Message Error_servidor), (fst w, replace_file u old upload (snd w)))
           | Inr (row, d') \<Rightarrow>
               ((200, Message_factura Factura_actualizada row),
                (d', replace_file u old upload (snd w)))))"

section \<open>deleteArchivoFactura\<close>

text \<open>
  \<^verbatim>\<open>!factura.archivo\<close> holds for \<^verbatim>\<open>null\<close> and for the empty string. The callback of
  \<^verbatim>\<open>fs.unlink\<close> answers 500 on an error and runs the UPDATE otherwise.
\<close>

definition deleteArchivoFactura ::
  "pg \<Rightarrow> nat \<Rightarrow> string \<Rightarrow> db \<times> fs \<Rightarrow> response \<times> db \<times> fs" where
  "deleteArchivoFactura g u i w =
     (case select_factura g i u (fst w) of
        Inl e \<Rightarrow> ((500, Message Error_servidor), w)
      | Inr None \<Rightarrow> ((404, Message No_encontrada), w)
      | Inr (Some fac) \<Rightarrow>
          (case archivo fac of
             None \<Rightarrow> ((400, Message Sin_archivo), w)
           | Some a \<Rightarrow>
               if a = [] then ((400, Message Sin_archivo), w)
               else
                 (case unlink (snd w) (u, a) of
                    None \<Rightarrow> ((500, Message Error_archivo), w)
                  | Some f' \<Rightarrow>
                      ((200, Message Archivo_eliminado), (clear_archivo fac (fst w), f')))))"

section \<open>Strings in JavaScript and in SQL\<close>

text \<open>
  Strings are ASCII. \<open>is_space\<close> is the white space of JavaScript (\<^verbatim>\<open>\s\<close>,
  \<^verbatim>\<open>trim\<close>, the leading white space of \<^verbatim>\<open>parseInt\<close>): tab, line feed, vertical tab,
  form feed, carriage return and space. \<open>lower\<close> is \<^verbatim>\<open>toLowerCase\<close> and SQL's
  \<^verbatim>\<open>LOWER\<close> on a character.
\<close>

definition is_space :: "char \<Rightarrow> bool" where
  "is_space c = (c = CHR '' '' \<or> (9 \<le> (of_char c :: nat) \<and> (of_char c :: nat) \<le> 13))"

definition lower :: "char \<Rightarrow> char" where
  "lower c =
     (case map_of (zip ''ABCDEFGHIJKLMNOPQRSTUVWXYZ'' ''abcdefghijklmnopqrstuvwxyz'') c of
        Some l \<Rightarrow> l
      | None \<Rightarrow> c)"

definition trim :: "string \<Rightarrow> string" where
  "trim s = rev (dropWhile is_space (rev (dropWhile is_space s)))"

text \<open>\<^verbatim>\<open>s.replace(/\s/g, "")\<close>\<close>

definition strip_spaces :: "string \<Rightarrow> string" where
  "strip_spaces s = filter (\<lambda>c. \<not> is_space c) s"

text \<open>\<^verbatim>\<open>REPLACE(LOWER(x), ' ', '')\<close>: only the space character is removed.\<close>

definition sql_normal :: "string \<Rightarrow> string" where
  "sql_normal x = filter (\<lambda>c. c \<noteq> CHR '' '') (map lower x)"

text \<open>
  \<^verbatim>\<open>text LIKE pattern\<close>: in the pattern \<^verbatim>\<open>%\<close> stands for any run of characters,
  \<^verbatim>\<open>_\<close> for any one character, and a backslash makes the next character literal.
\<close>

fun like :: "string \<Rightarrow> string \<Rightarrow> bool" where
  "like [] s = (s = [])"
| "like (p # ps) s =
     (if p = CHR ''%'' then
        like ps s \<or> (case s of [] \<Rightarrow> False | c # cs \<Rightarrow> like (p # ps) cs)
      else if p = CHR ''_'' then
        (case s of [] \<Rightarrow> False | c # cs \<Rightarrow> like ps cs)
      else if p = CHR 0x5C then
        (case ps of
           [] \<Rightarrow> False
         | q # qs \<Rightarrow> (case s of [] \<Rightarrow> False | c # cs \<Rightarrow> c = q \<and> like qs cs))
      else
        (case s of [] \<Rightarrow> False | c # cs \<Rightarrow> c = p \<and> like ps cs))"

text \<open>A comparison with NULL is not true.\<close>

definition like_null :: "string \<Rightarrow> string option \<Rightarrow> bool" where
  "like_null p x = (case x of None \<Rightarrow> False | Some s \<Rightarrow> like p (sql_normal s))"

definition digit_char :: "nat \<Rightarrow> char" where
  "digit_char n = ''0123456789'' ! (n mod 10)"

fun show_nat :: "nat \<Rightarrow> string" where
  "show_nat n =
     (if n < 10 then [digit_char n] else show_nat (n div 10) @ [digit_char (n mod 10)])"

definition pad :: "nat \<Rightarrow> nat \<Rightarrow> string" where
  "pad w n = replicate (w - length (show_nat n)) CHR ''0'' @ show_nat n"

text \<open>\<^verbatim>\<open>TO_CHAR(d, 'DD/MM/YYYY')\<close> and \<^verbatim>\<open>TO_CHAR(d, 'MM')\<close>\<close>

definition to_char_dmy :: "date \<Rightarrow> string" where
  "to_char_dmy d = pad 2 (day d) @ ''/'' @ pad 2 (month d) @ ''/'' @ pad 4 (year d)"


text \<open>
  \<^verbatim>\<open>parseInt(x)\<close> of a query parameter, a string or \<^verbatim>\<open>undefined\<close>, with no radix:
  leading white space, a sign, the prefix \<^verbatim>\<open>0x\<close> for base 16, then the longest run of
  digits; NaN (\<open>None\<close>) when there is no digit. The result is the integer that the digits
  denote (JavaScript rounds it to a double beyond 2^53).
\<close>

definition digit_of :: "char \<Rightarrow> nat option" where
  "digit_of c =
     map_of (zip ''0123456789abcdef'' [0, 1, 2, 3, 4, 5, 6, 7, 8, 9, 10, 11, 12, 13, 14, 15])
       (lower c)"

definition is_digit :: "nat \<Rightarrow> char \<Rightarrow> bool" where
  "is_digit radix c = (case digit_of c of None \<Rightarrow> False | Some v \<Rightarrow> v < radix)"

definition digits_value :: "nat \<Rightarrow> string \<Rightarrow> nat" where
  "digits_value radix z =
     foldl (\<lambda>a c. a * radix + (case digit_of c of None \<Rightarrow> 0 | Some v \<Rightarrow> v)) 0 z"

definition parseInt :: "string option \<Rightarrow> int option" where
  "parseInt x =
     (case x of
        None \<Rightarrow> None
      | Some s \<Rightarrow>
          (let s1 = dropWhile is_space s;
               neg = (take 1 s1 = ''-'');
               s2 = (if take 1 s1 = ''+'' \<or> take 1 s1 = ''-'' then drop 1 s1 else s1);
               hex = (take 2 s2 = ''0x'' \<or> take 2 s2 = ''0X'');
               radix = (if hex then 16 else 10);
               s3 = (if hex then drop 2 s2 else s2);
               z = takeWhile (is_digit radix) s3
           in if z = [] then None
              else Some ((if neg then - 1 else 1) * int (digits_value radix z))))"

text \<open>\<^verbatim>\<open>parseInt(x) || dflt\<close>: NaN and 0 are falsy.\<close>

definition int_or :: "int option \<Rightarrow> int \<Rightarrow> int" where
  "int_or n dflt = (case n of None \<Rightarrow> dflt | Some k \<Rightarrow> if k = 0 then dflt else k)"

section \<open>getFacturasByUser\<close>

text \<open>The parameters read from \<^verbatim>\<open>req.query\<close>; \<open>None\<close> is \<^verbatim>\<open>undefined\<close>.\<close>

record list_query =
  q_page :: "string option"
  q_limit :: "string option"
  q_sortField :: "string option"
  q_sortOrder :: "string option"
  q_search :: "string option"

text \<open>\<^verbatim>\<open>req.query.search?.toLowerCase().trim() || ""\<close>\<close>

definition search_of :: "list_query \<Rightarrow> string" where
  "search_of q = (case q_search q of None \<Rightarrow> [] | Some s \<Rightarrow> trim (map lower s))"

definition searchPattern :: "string \<Rightarrow> string" where
  "searchPattern search = ''%'' @ strip_spaces search @ ''%''"

text \<open>
  The \<^verbatim>\<open>WHERE\<close> clause: \<^verbatim>\<open>f.usuario_id = $1\<close>, and when \<open>search\<close> is not empty
  \<^verbatim>\<open>AND (REPLACE(LOWER(f.numero), ' ', '') LIKE $2 OR
  REPLACE(LOWER(f.descripcion), ' ', '') LIKE $2 OR
  TO_CHAR(f.fecha_emision, 'DD/MM/YYYY') LIKE $2)\<close>.
\<close>

definition whereClause :: "nat \<Rightarrow> string \<Rightarrow> factura \<Rightarrow> bool" where
  "whereClause u search r =
     (if search \<noteq> [] then
        usuario_id r = u \<and>
        (like_null (searchPattern search) (numero r) \<or>
         like_null (searchPattern search) (descripcion r) \<or>
         like (searchPattern search) (to_char_dmy (fecha_emision r)))
      else usuario_id r = u)"

text \<open>
  \<^verbatim>\<open>LEFT JOIN clientes c ON f.cliente_id = c.id\<close> with \<^verbatim>\<open>c.nombre AS cliente_nombre\<close>:
  every invoice row once, since \<^verbatim>\<open>c.id\<close> is a key.
\<close>

definition join_cliente :: "db \<Rightarrow> factura \<Rightarrow> factura_joined" where
  "join_cliente d r =
     factura.extend r
       (factura_joined.fields (case cliente_id r of None \<Rightarrow> None | Some c \<Rightarrow> map_of (clientes d) c))"

text \<open>Ordering rows by a comparison, whatever the comparison is.\<close>

fun insert_by :: "('a \<Rightarrow> 'a \<Rightarrow> bool) \<Rightarrow> 'a \<Rightarrow> 'a list \<Rightarrow> 'a list" where
  "insert_by le x [] = [x]"
| "insert_by le x (y # ys) = (if le x y then x # y # ys else y # insert_by le x ys)"

definition sort_by :: "('a \<Rightarrow> 'a \<Rightarrow> bool) \<Rightarrow> 'a list \<Rightarrow> 'a list" where
  "sort_by le xs = foldr (insert_by le) xs []"

text \<open>
  The paginated query. The text after \<^verbatim>\<open>ORDER BY\<close> is \<^verbatim>\<open>${sortField} ${sortOrder}\<close>,
  which the server reads as an ordering or rejects; it rejects a negative \<^verbatim>\<open>LIMIT\<close> and a
  negative \<^verbatim>\<open>OFFSET\<close>.
\<close>

definition paginatedQuery ::
  "pg \<Rightarrow> nat \<Rightarrow> string \<Rightarrow> string \<Rightarrow> int \<Rightarrow> int \<Rightarrow> db \<Rightarrow> pg_error + factura_joined list" where
  "paginatedQuery g u search orderClause limit offset d =
     (case order_by g orderClause of
        None \<Rightarrow> Inl \<lparr>code = ''42601'', constraint_name = ''''\<rparr>
      | Some le \<Rightarrow>
          if limit < 0 \<or> offset < 0 then Inl \<lparr>code = ''2201W'', constraint_name = ''''\<rparr>
          else Inr (take (nat limit) (drop (nat offset)
                 (sort_by le (map (join_cliente d) (filter (whereClause u search) (facturas d)))))))"

text \<open>\<^verbatim>\<open>SELECT COUNT(*) FROM facturas WHERE usuario_id = $1\<close>\<close>

definition totalCount :: "nat \<Rightarrow> db \<Rightarrow> int" where
  "totalCount u d = int (length (filter (\<lambda>r. usuario_id r = u) (facturas d)))"

text \<open>
  \<^verbatim>\<open>archivo_url: factura.archivo ? `${UPLOADS_BASE_URL}/${factura.usuario_id}/${factura.archivo}`
  : null\<close>; \<open>base\<close> is the environment variable, which a template renders as
  \<^verbatim>\<open>undefined\<close> when it is not set.
\<close>

definition with_url :: "string option \<Rightarrow> factura_joined \<Rightarrow> factura_url" where
  "with_url base r =
     factura_joined.extend r
       (factura_url.fields
          (case archivo r of
             None \<Rightarrow> None
           | Some a \<Rightarrow>
               if a = [] then None
               else Some ((case base of None \<Rightarrow> ''undefined'' | Some b \<Rightarrow> b) @ ''/''
                          @ show_nat (usuario_id r) @ ''/'' @ a)))"

definition getFacturasByUser :: "pg \<Rightarrow> string option \<Rightarrow> nat \<Rightarrow> list_query \<Rightarrow> db \<Rightarrow> response" where
  "getFacturasByUser g base u q d =
     (let page = int_or (parseInt (q_page q)) 1;
          limit = int_or (parseInt (q_limit q)) 5;
          offset = (page - 1) * limit;
          sortField = (case q_sortField q of
                         None \<Rightarrow> ''fecha_emision''
                       | Some s \<Rightarrow> if s = [] then ''fecha_emision'' else s);
          sortOrder = (if q_sortOrder q = Some ''1'' then ''ASC'' else ''DESC'');
          search = search_of q
      in case paginatedQuery g u search (sortField @ '' '' @ sortOrder) limit offset d of
           Inl e \<Rightarrow> (500, Message Error_obtener)
         | Inr rows \<Rightarrow> (200, Facturas_total (map (with_url base) rows) (totalCount u d)))"

section \<open>getResumenFacturasPorYear\<close>

text \<open>
  \<^verbatim>\<open>WHERE usuario_id = $1 AND EXTRACT(YEAR FROM fecha_emision) = $2\<close>, the rows both
  queries aggregate.
\<close>

definition facturas_del_anio :: "nat \<Rightarrow> int \<Rightarrow> db \<Rightarrow> factura list" where
  "facturas_del_anio u y d =
     filter (\<lambda>r. usuario_id r = u \<and> int (year (fecha_emision r)) = y) (facturas d)"

text \<open>
  The aggregates of SQL: \<^verbatim>\<open>COUNT\<close> is 0 on no row, \<^verbatim>\<open>SUM\<close> and \<^verbatim>\<open>AVG\<close> are
  NULL; \<^verbatim>\<open>FILTER (WHERE estado = true)\<close> keeps the rows where the comparison is true.
  \<^verbatim>\<open>ROUND(x, 2)\<close> rounds a half away from zero.
\<close>

definition sql_count :: "'a list \<Rightarrow> int" where
  "sql_count xs = int (length xs)"

definition sql_sum :: "rat list \<Rightarrow> rat option" where
  "sql_sum xs = (if xs = [] then None else Some (sum_list xs))"

definition sql_avg :: "rat list \<Rightarrow> rat option" where
  "sql_avg xs = (if xs = [] then None else Some (sum_list xs / of_nat (length xs)))"

definition round2 :: "rat \<Rightarrow> rat" where
  "round2 x =
     (if 0 \<le> x then of_int \<lfloor>x * 100 + 1 / 2\<rfloor> / 100
      else - (of_int \<lfloor>- x * 100 + 1 / 2\<rfloor> / 100))"

definition coalesce :: "'a option \<Rightarrow> 'a \<Rightarrow> 'a" where
  "coalesce x dflt = (case x of None \<Rightarrow> dflt | Some v \<Rightarrow> v)"

definition con_estado :: "bool \<Rightarrow> factura list \<Rightarrow> factura list" where
  "con_estado b rows = filter (\<lambda>r. estado r = Some b) rows"

text \<open>The one row of the first query; the three averages may be NULL.\<close>

record resumen_row =
  total_facturas :: int
  q_pagadas :: int
  q_no_pagadas :: int
  total_importe :: rat
  importe_pagadas :: rat
  importe_no_pagadas :: rat
  promedio_importe :: "rat option"
  promedio_pagadas :: "rat option"
  promedio_no_pagadas :: "rat option"

definition resumenQuery :: "nat \<Rightarrow> int \<Rightarrow> db \<Rightarrow> resumen_row" where
  "resumenQuery u y d =
     (let rows = facturas_del_anio u y d in
      \<lparr>total_facturas = sql_count rows,
       q_pagadas = sql_count (con_estado True rows),
       q_no_pagadas = sql_count (con_estado False rows),
       total_importe = coalesce (sql_sum (map importe rows)) 0,
       importe_pagadas = coalesce (sql_sum (map importe (con_estado True rows))) 0,
       importe_no_pagadas = coalesce (sql_sum (map importe (con_estado False rows))) 0,
       promedio_importe = map_option round2 (sql_avg (map importe rows)),
       promedio_pagadas = map_option round2 (sql_avg (map importe (con_estado True rows))),
       promedio_no_pagadas = map_option round2 (sql_avg (map importe (con_estado False rows)))\<rparr>)"

text \<open>
  The second query: one row for each month that has an invoice, in the order of the month
  (\<^verbatim>\<open>GROUP BY mes ORDER BY mes\<close> with \<^verbatim>\<open>TO_CHAR(fecha_emision, 'MM') AS mes\<close>).
\<close>

record mensual_row =
  m_mes :: string
  m_total :: int
  m_pagadas :: int
  m_no_pagadas :: int
  m_total_importe :: rat

definition mensual_group :: "factura list \<Rightarrow> nat \<Rightarrow> mensual_row" where
  "mensual_group rows m =
     (let grp = filter (\<lambda>r. month (fecha_emision r) = m) rows in
      \<lparr>m_mes = pad 2 m,
       m_total = sql_count grp,
       m_pagadas = sql_count (con_estado True grp),
       m_no_pagadas = sql_count (con_estado False grp),
       m_total_importe = coalesce (sql_sum (map importe grp)) 0\<rparr>)"

definition mensualQuery :: "nat \<Rightarrow> int \<Rightarrow> db \<Rightarrow> mensual_row list" where
  "mensualQuery u y d =
     (let rows = facturas_del_anio u y d in
      map (mensual_group rows) (sort (remdups (map (\<lambda>r. month (fecha_emision r)) rows))))"

definition meses :: "string list" where
  "meses = [''01'', ''02'', ''03'', ''04'', ''05'', ''06'',
            ''07'', ''08'', ''09'', ''10'', ''11'', ''12'']"

text \<open>
  \<^verbatim>\<open>meses.map((mes) => { const found = rows.find((row) => row.mes === mes); ... })\<close>. The
  counts reach JavaScript as decimal text and the amounts as numeric text; \<^verbatim>\<open>parseInt\<close> and
  \<^verbatim>\<open>parseFloat\<close> read them back, here as the number itself.
\<close>

definition agrupadoMensual :: "mensual_row list \<Rightarrow> mes_out list" where
  "agrupadoMensual rows =
     map (\<lambda>m. case find (\<lambda>row. m_mes row = m) rows of
                 None \<Rightarrow> \<lparr>mes = m, total = 0, pagadas = 0, noPagadas = 0, totalImporte = 0\<rparr>
               | Some found \<Rightarrow>
                   \<lparr>mes = m, total = m_total found, pagadas = m_pagadas found,
                    noPagadas = m_no_pagadas found, totalImporte = m_total_importe found\<rparr>)
       meses"

text \<open>
  \<^verbatim>\<open>parseFloat(x || 0)\<close> for an average \<open>x\<close>: numeric text, which is truthy, or
  \<^verbatim>\<open>null\<close>.
\<close>

definition or_zero :: "rat option \<Rightarrow> rat" where
  "or_zero x = (case x of None \<Rightarrow> 0 | Some v \<Rightarrow> v)"

text \<open>\<open>y\<close> is \<^verbatim>\<open>req.query.year\<close>. The guard is \<^verbatim>\<open>!year || isNaN(year)\<close>.\<close>

definition getResumenFacturasPorYear :: "nat \<Rightarrow> string option \<Rightarrow> db \<Rightarrow> response" where
  "getResumenFacturasPorYear u y d =
     (case parseInt y of
        None \<Rightarrow> (400, Message Anio_invalido)
      | Some yr \<Rightarrow>
          if yr = 0 then (400, Message Anio_invalido)
          else
            (let resumen = resumenQuery u yr d in
             (200, Resumen_anual yr
                \<lparr>r_totalFacturas = total_facturas resumen,
                 r_pagadas = q_pagadas resumen,
                 r_noPagadas = q_no_pagadas resumen,
                 r_totalImporte = total_importe resumen,
                 r_importePagadas = importe_pagadas resumen,
                 r_importeNoPagadas = importe_no_pagadas resumen,
                 r_promedioImporte = or_zero (promedio_importe resumen),
                 r_promedioPagadas = or_zero (promedio_pagadas resumen),
                 r_promedioNoPagadas = or_zero (promedio_no_pagadas resumen)\<rparr>
                (agrupadoMensual (mensualQuery u yr d)))))"

section \<open>A server to run the controller on\<close>

text \<open>
  One PostgreSQL for the concrete runs below. It reads integers and decimal numbers in
  decimal notation, dates as \<^verbatim>\<open>YYYY-MM-DD\<close>, the boolean literals \<^verbatim>\<open>true\<close>,
  \<^verbatim>\<open>false\<close>, \<^verbatim>\<open>t\<close>, \<^verbatim>\<open>f\<close>, \<^verbatim>\<open>1\<close>, \<^verbatim>\<open>0\<close>, takes a string as text as it
  is, and orders by \<^verbatim>\<open>fecha_emision\<close>, \<^verbatim>\<open>importe\<close> or \<^verbatim>\<open>f.id\<close>. The driver sends
  a number as its decimal text and a boolean as \<^verbatim>\<open>true\<close> or \<^verbatim>\<open>false\<close>. Every theorem
  that is not a concrete run holds for all servers.
\<close>

definition all_digits :: "string \<Rightarrow> bool" where
  "all_digits s = (s \<noteq> [] \<and> list_all (is_digit 10) s)"

definition sample_int :: "jsval \<Rightarrow> int option" where
  "sample_int v =
     (case v of
        JNum x \<Rightarrow> if of_int \<lfloor>x\<rfloor> = x then Some \<lfloor>x\<rfloor> else None
      | JStr s \<Rightarrow>
          if take 1 s = ''-'' \<and> all_digits (drop 1 s) then Some (- int (digits_value 10 (drop 1 s)))
          else if all_digits s then Some (int (digits_value 10 s))
          else None
      | _ \<Rightarrow> None)"

definition leap :: "nat \<Rightarrow> bool" where
  "leap y = (y mod 4 = 0 \<and> (y mod 100 \<noteq> 0 \<or> y mod 400 = 0))"

definition days_in :: "nat \<Rightarrow> nat \<Rightarrow> nat" where
  "days_in y m =
     (if m = 2 then (if leap y then 29 else 28)
      else if m = 4 \<or> m = 6 \<or> m = 9 \<or> m = 11 then 30
      else 31)"

definition sample_date :: "jsval \<Rightarrow> date option" where
  "sample_date v =
     (case v of
        JStr s \<Rightarrow>
          (let y = digits_value 10 (take 4 s);
               m = digits_value 10 (take 2 (drop 5 s));
               dd = digits_value 10 (drop 8 s)
           in if length s = 10 \<and> take 1 (drop 4 s) = ''-'' \<and> take 1 (drop 7 s) = ''-''
                 \<and> all_digits (take 4 s) \<and> all_digits (take 2 (drop 5 s)) \<and> all_digits (drop 8 s)
                 \<and> 1 \<le> y \<and> 1 \<le> m \<and> m \<le> 12 \<and> 1 \<le> dd \<and> dd \<le> days_in y m
              then Some \<lparr>year = y, month = m, day = dd\<rparr>
              else None)
      | _ \<Rightarrow> None)"

definition sample_numeric :: "jsval \<Rightarrow> rat option" where
  "sample_numeric v =
     (case v of
        JNum x \<Rightarrow> Some x
      | JStr s \<Rightarrow>
          (let a = takeWhile (\<lambda>c. c \<noteq> CHR ''.'') s;
               b = drop (Suc (length a)) s
           in if all_digits a \<and> (a = s \<or> all_digits b)
              then Some (of_nat (digits_value 10 a) + of_nat (digits_value 10 b) / 10 ^ length b)
              else None)
      | _ \<Rightarrow> None)"

definition sample_bool :: "jsval \<Rightarrow> bool option" where
  "sample_bool v =
     (case v of
        JBool b \<Rightarrow> Some b
      | JNum x \<Rightarrow> if x = 1 then Some True else if x = 0 then Some False else None
      | JStr s \<Rightarrow>
          if s \<in> set [''true'', ''t'', ''1''] then Some True
          else if s \<in> set [''false'', ''f'', ''0''] then Some False
          else None
      | _ \<Rightarrow> None)"

definition sample_text :: "jsval \<Rightarrow> string option" where
  "sample_text v =
     (case v of
        JStr s \<Rightarrow> Some s
      | JBool b \<Rightarrow> Some (if b then ''true'' else ''false'')
      | JNum x \<Rightarrow> if of_int \<lfloor>x\<rfloor> = x \<and> 0 \<le> x then Some (show_nat (nat \<lfloor>x\<rfloor>)) else None
      | _ \<Rightarrow> None)"

definition date_le :: "date \<Rightarrow> date \<Rightarrow> bool" where
  "date_le a b =
     (year a < year b \<or> (year a = year b \<and>
       (month a < month b \<or> (month a = month b \<and> day a \<le> day b))))"

definition sample_order :: "string \<Rightarrow> (factura_joined \<Rightarrow> factura_joined \<Rightarrow> bool) option" where
  "sample_order t =
     (if t = ''fecha_emision ASC'' then Some (\<lambda>a b. date_le (fecha_emision a) (fecha_emision b))
      else if t = ''fecha_emision DESC'' then Some (\<lambda>a b. date_le (fecha_emision b) (fecha_emision a))
      else if t = ''importe ASC'' then Some (\<lambda>a b. importe a \<le> importe b)
      else if t = ''importe DESC'' then Some (\<lambda>a b. importe b \<le> importe a)
      else if t = ''f.id ASC'' then Some (\<lambda>a b. id a \<le> id b)
      else if t = ''f.id DESC'' then Some (\<lambda>a b. id b \<le> id a)
      else None)"

definition pg_sample :: pg where
  "pg_sample =
     \<lparr>int_in = sample_int, date_in = sample_date, numeric_in = sample_numeric,
      bool_in = sample_bool, text_in = sample_text, order_by = sample_order\<rparr>"

section \<open>Data for the concrete runs\<close>

text \<open>
  An empty database; the request of the specification's scenario (client 5, issued on
  2024-03-01, amount 100.00, unpaid) with the number \<^verbatim>\<open>INV-1\<close>; the invoice that user 7
  creates with it; and the database after that.
\<close>

definition db0 :: db where
  "db0 = \<lparr>facturas = [], clientes = [(5, ''Ana'')], seq = 1\<rparr>"

definition body1 :: body where
  "body1 =
     \<lparr>b_cliente_id = JNum 5, b_fecha_emision = JStr ''2024-03-01'', b_importe = JStr ''100.00'',
      b_estado = JBool False, b_numero = JStr ''INV-1'', b_descripcion = JUndefined\<rparr>"

definition factura1 :: factura where
  "factura1 =
     \<lparr>id = 1, usuario_id = 7, cliente_id = Some 5,
      fecha_emision = \<lparr>year = 2024, month = 3, day = 1\<rparr>, importe = 100, estado = Some False,
      numero = Some ''INV-1'', descripcion = None, archivo = None\<rparr>"

definition db1 :: db where
  "db1 = \<lparr>facturas = [factura1], clientes = [(5, ''Ana'')], seq = 2\<rparr>"

text \<open>A request that carries every required field, with \<^verbatim>\<open>estado: false\<close> and \<^verbatim>\<open>importe: 0\<close>.\<close>

definition body_importe_cero :: body where
  "body_importe_cero =
     \<lparr>b_cliente_id = JNum 5, b_fecha_emision = JStr ''2024-03-01'', b_importe = JNum 0,
      b_estado = JBool False, b_numero = JUndefined, b_descripcion = JUndefined\<rparr>"

text \<open>
  A request with the empty string as \<^verbatim>\<open>numero\<close> and as \<^verbatim>\<open>descripcion\<close>, and the invoice
  that user 7 creates with it under the given \<^verbatim>\<open>id\<close>.
\<close>

definition body_sin_numero :: body where
  "body_sin_numero =
     \<lparr>b_cliente_id = JNum 5, b_fecha_emision = JStr ''2024-03-01'', b_importe = JStr ''100.00'',
      b_estado = JBool False, b_numero = JStr [], b_descripcion = JStr []\<rparr>"

definition factura_sin_numero :: "nat \<Rightarrow> factura" where
  "factura_sin_numero i =
     \<lparr>id = i, usuario_id = 7, cliente_id = Some 5,
      fecha_emision = \<lparr>year = 2024, month = 3, day = 1\<rparr>, importe = 100, estado = Some False,
      numero = None, descripcion = None, archivo = None\<rparr>"

text \<open>
  An update that sets \<^verbatim>\<open>estado\<close> to \<^verbatim>\<open>true\<close>, \<^verbatim>\<open>importe\<close> to \<^verbatim>\<open>0\<close> and
  \<^verbatim>\<open>descripcion\<close> to the empty string and carries nothing else, and the first invoice after
  it.
\<close>

definition body_update :: body where
  "body_update =
     \<lparr>b_cliente_id = JUndefined, b_fecha_emision = JUndefined, b_importe = JNum 0,
      b_estado = JBool True, b_numero = JUndefined, b_descripcion = JStr []\<rparr>"

definition factura1_updated :: factura where
  "factura1_updated = factura1\<lparr>estado := Some True, descripcion := Some []\<rparr>"

text \<open>An update that carries only \<^verbatim>\<open>estado: false\<close>.\<close>

definition body_estado_false :: body where
  "body_estado_false =
     \<lparr>b_cliente_id = JUndefined, b_fecha_emision = JUndefined, b_importe = JUndefined,
      b_estado = JBool False, b_numero = JUndefined, b_descripcion = JUndefined\<rparr>"

text \<open>The first invoice with a file attached, alone in the database.\<close>

definition factura_con_archivo :: factura where
  "factura_con_archivo = factura1\<lparr>archivo := Some ''a.pdf''\<rparr>"

definition db_archivo :: db where
  "db_archivo = \<lparr>facturas = [factura_con_archivo], clientes = [(5, ''Ana'')], seq = 2\<rparr>"

text \<open>
  A second invoice of user 7, paid, with a description of two lines, and an invoice of user
  8; the database with the three; a list request that carries only \<^verbatim>\<open>search\<close>; and the first
  invoice as the list returns it.
\<close>

definition factura2 :: factura where
  "factura2 =
     \<lparr>id = 2, usuario_id = 7, cliente_id = None,
      fecha_emision = \<lparr>year = 2024, month = 5, day = 10\<rparr>, importe = 50, estado = Some True,
      numero = Some ''ABC 2'', descripcion = Some (''Obra'' @ [CHR 0x0A] @ ''nueva''),
      archivo = Some ''a.pdf''\<rparr>"

definition factura3 :: factura where
  "factura3 =
     \<lparr>id = 3, usuario_id = 8, cliente_id = Some 5,
      fecha_emision = \<lparr>year = 2024, month = 3, day = 2\<rparr>, importe = 75, estado = Some True,
      numero = Some ''INV-19'', descripcion = None, archivo = None\<rparr>"

definition db2 :: db where
  "db2 = \<lparr>facturas = [factura1, factura2, factura3], clientes = [(5, ''Ana'')], seq = 4\<rparr>"

definition query_search :: "string \<Rightarrow> list_query" where
  "query_search s =
     \<lparr>q_page = None, q_limit = None, q_sortField = None, q_sortOrder = None, q_search = Some s\<rparr>"

definition factura1_out :: factura_url where
  "factura1_out =
     \<lparr>id = 1, usuario_id = 7, cliente_id = Some 5,
      fecha_emision = \<lparr>year = 2024, month = 3, day = 1\<rparr>, importe = 100, estado = Some False,
      numero = Some ''INV-1'', descripcion = None, archivo = None,
      cliente_nombre = Some ''Ana'', archivo_url = None\<rparr>"




section \<open>The specification's wording\<close>



text \<open>
  The year as the specification words it: a parseable positive integer.
\<close>

definition parseable_positive :: "string option \<Rightarrow> bool" where
  "parseable_positive y = (case parseInt y of None \<Rightarrow> False | Some k \<Rightarrow> 0 < k)"


section \<open>Properties\<close>

subsection \<open>Binding parameters\<close>

lemma and_then_Inr: "(and_then x f = Inr y) = (\<exists>a. x = Inr a \<and> f a = Inr y)"
  by (cases x) auto

lemma and_then_Inl: "(and_then x f = Inl e) = (x = Inl e \<or> (\<exists>a. x = Inr a \<and> f a = Inl e))"
  by (cases x) auto

lemma bind_params_Inr:
  assumes "bind_params g i u p = Inr row"
  shows "id row = i" "usuario_id row = u"
    "nullable (int_in g) (p_cliente_id p) = Inr (cliente_id row)"
    "required (date_in g) (p_fecha_emision p) = Inr (fecha_emision row)"
    "required (numeric_in g) (p_importe p) = Inr (importe row)"
    "nullable (bool_in g) (p_estado p) = Inr (estado row)"
    "nullable (text_in g) (p_numero p) = Inr (numero row)"
    "nullable (text_in g) (p_descripcion p) = Inr (descripcion row)"
    "nullable (text_in g) (p_archivo p) = Inr (archivo row)"
  using assms by (auto simp: bind_params_def and_then_Inr)

lemma nullable_Inl: "nullable conv a = Inl e \<Longrightarrow> code e \<noteq> ''23505''"
  by (cases a) (auto simp: invalid_input_def split: if_splits option.splits)

lemma required_Inl: "required conv a = Inl e \<Longrightarrow> code e \<noteq> ''23505''"
  by (cases a) (auto simp: invalid_input_def not_null_violation_def split: if_splits option.splits)

lemma bind_params_Inl: "bind_params g i u p = Inl e \<Longrightarrow> code e \<noteq> ''23505''"
  by (auto simp: bind_params_def and_then_Inl dest: nullable_Inl required_Inl)

lemma nullable_Fresh:
  assumes "nullable conv (Fresh v) = Inr x"
  shows "(v = JUndefined \<or> v = JNull \<longrightarrow> x = None) \<and>
         (v \<noteq> JUndefined \<and> v \<noteq> JNull \<longrightarrow> conv v = x \<and> x \<noteq> None)"
proof (cases "v = JUndefined \<or> v = JNull")
  case True
  then show ?thesis using assms by auto
next
  case False
  then obtain y where "conv v = Some y" "x = Some y"
    using assms by (cases "conv v") auto
  then show ?thesis using False by simp
qed

lemma required_Fresh: "required conv (Fresh v) = Inr x \<Longrightarrow> conv v = Some x"
  by (cases "conv v") (auto split: if_splits)

lemma truthy_defined: "truthy v \<Longrightarrow> v \<noteq> JUndefined \<and> v \<noteq> JNull"
  by (cases v) auto

subsection \<open>Finding and replacing a row\<close>

lemma select_factura_found:
  assumes "select_factura g i u d = Inr (Some old)"
  shows "\<exists>k. int_in g (JStr i) = Some k \<and> int (id old) = k \<and> usuario_id old = u
           \<and> find (\<lambda>r. int (id r) = k \<and> usuario_id r = u) (facturas d) = Some old"
  using assms by (auto simp: select_factura_def find_Some_iff split: option.splits)

lemma find_map_pres:
  assumes "find P xs = Some x" "\<And>r. P (h r) = P r"
  shows "find P (map h xs) = Some (h x)"
  using assms(1) by (induction xs) (auto simp: assms(2) split: if_splits)

lemma update_factura_Inr:
  assumes "update_factura g old p d = Inr (row, d')"
  shows "bind_params g (id old) (usuario_id old) p = Inr row"
    and "d' = d\<lparr>facturas :=
                 map (\<lambda>r. if id r = id old \<and> usuario_id r = usuario_id old then row else r)
                   (facturas d)\<rparr>"
  using assms by (auto simp: update_factura_def split: sum.splits if_splits)

lemma select_after_update:
  assumes "select_factura g i u d = Inr (Some old)" "update_factura g old p d = Inr (row, d')"
  shows "select_factura g i u d' = Inr (Some row)"
proof -
  from select_factura_found [OF assms(1)] obtain k where
    k: "int_in g (JStr i) = Some k" "int (id old) = k" "usuario_id old = u"
      "find (\<lambda>r. int (id r) = k \<and> usuario_id r = u) (facturas d) = Some old"
    by blast
  have row: "id row = id old" "usuario_id row = usuario_id old"
    using bind_params_Inr(1,2) [OF update_factura_Inr(1) [OF assms(2)]] by simp_all
  let ?h = "\<lambda>r. if id r = id old \<and> usuario_id r = usuario_id old then row else r"
  have "find (\<lambda>r. int (id r) = k \<and> usuario_id r = u) (map ?h (facturas d)) = Some (?h old)"
    by (rule find_map_pres [OF k(4)]) (use k row in auto)
  then show ?thesis
    using k(1) update_factura_Inr(2) [OF assms(2)] by (simp add: select_factura_def)
qed

lemma select_after_clear:
  assumes "select_factura g i u d = Inr (Some fac)"
  shows "select_factura g i u (clear_archivo fac d) = Inr (Some (fac\<lparr>archivo := None\<rparr>))"
proof -
  from select_factura_found [OF assms(1)] obtain k where
    k: "int_in g (JStr i) = Some k" "int (id fac) = k" "usuario_id fac = u"
      "find (\<lambda>r. int (id r) = k \<and> usuario_id r = u) (facturas d) = Some fac"
    by blast
  let ?h = "\<lambda>r. if id r = id fac \<and> usuario_id r = usuario_id fac then r\<lparr>archivo := None\<rparr> else r"
  have "find (\<lambda>r. int (id r) = k \<and> usuario_id r = u) (map ?h (facturas d)) = Some (?h fac)"
    by (rule find_map_pres [OF k(4)]) auto
  then show ?thesis
    using k(1) by (simp add: select_factura_def clear_archivo_def)
qed

subsection \<open>Unfolding for the concrete runs\<close>

lemmas sample_simps =
  pg_sample_def sample_int_def sample_date_def sample_numeric_def sample_bool_def sample_text_def
  sample_order_def all_digits_def is_digit_def digit_of_def digits_value_def lower_def
  days_in_def leap_def

lemmas create_simps =
  createFactura_def createParams_def insert_factura_def bind_params_def js_or_def
  numero_taken_def unique_violation_def invalid_input_def

lemmas update_simps =
  updateFactura_def select_factura_def update_factura_def updateParams_def archivoActual_def
  replace_file_def bind_params_def or_kept_def defined_or_kept_def js_text_def js_or_def
  numero_taken_def

subsection \<open>createFactura\<close>

text \<open>The four outcomes of \<^verbatim>\<open>createFactura\<close>.\<close>

lemma createFactura_cases:
  "createFactura g u b upload d =
     (if \<not> truthy (b_fecha_emision b) \<or> \<not> truthy (b_importe b) \<or> b_estado b = JUndefined
         \<or> \<not> truthy (b_cliente_id b)
      then ((400, Message Obligatorios), d)
      else case bind_params g (seq d) u (createParams b upload) of
             Inl e \<Rightarrow> ((500, Message Error_servidor), d)
           | Inr row \<Rightarrow>
               if numero_taken (facturas d) (numero row)
               then ((400, Message Numero_repetido), d\<lparr>seq := Suc (seq d)\<rparr>)
               else ((201, Message_factura Factura_creada row),
                     d\<lparr>facturas := facturas d @ [row], seq := Suc (seq d)\<rparr>))"
  by (auto simp: createFactura_def insert_factura_def unique_violation_def
      split: sum.splits dest: bind_params_Inl)

lemma createParams_numero: "p_numero (createParams b upload) = Fresh (js_or (b_numero b) JNull)"
  and createParams_descripcion:
    "p_descripcion (createParams b upload) = Fresh (js_or (b_descripcion b) JNull)"
  and createParams_archivo:
    "p_archivo (createParams b upload) =
       Fresh (js_or (case upload of Some f \<Rightarrow> JStr f | None \<Rightarrow> JNull) JNull)"
  by (simp_all add: createParams_def)

lemma createFactura_created:
  assumes "createFactura g u b upload d = ((201, p), d')"
  shows "\<exists>row. bind_params g (seq d) u (createParams b upload) = Inr row
           \<and> \<not> numero_taken (facturas d) (numero row)
           \<and> p = Message_factura Factura_creada row
           \<and> d' = d\<lparr>facturas := facturas d @ [row], seq := Suc (seq d)\<rparr>"
  using assms by (auto simp: createFactura_cases split: if_splits sum.splits)

lemma run_body1: "createFactura pg_sample 7 body1 None db0 =
    ((201, Message_factura Factura_creada factura1), db1)"
  by (simp add: create_simps sample_simps body1_def db0_def db1_def factura1_def)

lemma bind_body1_db1: "bind_params pg_sample (seq db1) 8 (createParams body1 None) =
    Inr (factura1\<lparr>id := 2, usuario_id := 8\<rparr>)"
  by (simp add: create_simps sample_simps body1_def db1_def factura1_def)

lemma run_sin_numero: "createFactura pg_sample 7 body_sin_numero None db0 =
    ((201, Message_factura Factura_creada (factura_sin_numero 1)),
     \<lparr>facturas = [factura_sin_numero 1], clientes = [(5, ''Ana'')], seq = 2\<rparr>)"
  by (simp add: create_simps sample_simps body_sin_numero_def db0_def factura_sin_numero_def)

lemma bind_sin_numero: "bind_params pg_sample 2 7 (createParams body_sin_numero None) =
    Inr (factura_sin_numero 2)"
  by (simp add: create_simps sample_simps body_sin_numero_def factura_sin_numero_def)

text \<open>
  Claim C1, as the code has it. \<^verbatim>\<open>createFactura\<close> answers 400 with the validation message
  exactly when \<^verbatim>\<open>fecha_emision\<close>, \<^verbatim>\<open>importe\<close> or \<^verbatim>\<open>cliente_id\<close> is falsy
  (absent, \<^verbatim>\<open>null\<close>, \<^verbatim>\<open>0\<close>, the empty string, \<^verbatim>\<open>false\<close>) or \<^verbatim>\<open>estado\<close> is
  \<^verbatim>\<open>undefined\<close>, and then the database is as before. So a request with one of the four
  fields absent is rejected, and a request with \<^verbatim>\<open>estado\<close> \<^verbatim>\<open>false\<close> and the other three
  truthy passes the validation.
\<close>

theorem C1_createFactura_obligatorios:
  "((fst (createFactura g u b upload d) = (400, Message Obligatorios)) =
      (\<not> truthy (b_fecha_emision b) \<or> \<not> truthy (b_importe b) \<or> \<not> truthy (b_cliente_id b)
       \<or> b_estado b = JUndefined))
   \<and> (fst (createFactura g u b upload d) = (400, Message Obligatorios) \<longrightarrow>
        snd (createFactura g u b upload d) = d)
   \<and> (b_fecha_emision b = JUndefined \<or> b_importe b = JUndefined \<or> b_cliente_id b = JUndefined
        \<or> b_estado b = JUndefined \<longrightarrow>
        createFactura g u b upload d = ((400, Message Obligatorios), d))
   \<and> (b_estado b = JBool False \<and> truthy (b_fecha_emision b) \<and> truthy (b_importe b)
        \<and> truthy (b_cliente_id b) \<longrightarrow>
        fst (createFactura g u b upload d) \<noteq> (400, Message Obligatorios))"
  by (auto simp: createFactura_cases split: sum.splits)

text \<open>
  The scenario's request, which has \<^verbatim>\<open>estado\<close> \<^verbatim>\<open>false\<close>, passes the validation and
  is stored as unpaid; without its \<^verbatim>\<open>importe\<close> it is rejected.
\<close>

theorem C1_witness:
  "b_estado body1 = JBool False \<and> truthy (b_fecha_emision body1) \<and> truthy (b_importe body1)
   \<and> truthy (b_cliente_id body1)
   \<and> fst (createFactura pg_sample 7 body1 None db0) \<noteq> (400, Message Obligatorios)
   \<and> createFactura pg_sample 7 body1 None db0 =
       ((201, Message_factura Factura_creada factura1), db1)
   \<and> estado factura1 = Some False
   \<and> b_importe (body1\<lparr>b_importe := JUndefined\<rparr>) = JUndefined
   \<and> createFactura pg_sample 7 (body1\<lparr>b_importe := JUndefined\<rparr>) None db0 =
       ((400, Message Obligatorios), db0)"
  using C1_createFactura_obligatorios [of pg_sample 7 body1 None db0]
    C1_createFactura_obligatorios [of pg_sample 7 "body1\<lparr>b_importe := JUndefined\<rparr>" None db0]
    run_body1
  by (simp add: body1_def factura1_def)

text \<open>
  Claim C1 as stated fails: this request carries all four fields, with \<^verbatim>\<open>estado\<close>
  \<^verbatim>\<open>false\<close> and \<^verbatim>\<open>importe\<close> \<^verbatim>\<open>0\<close>, and is rejected with the validation message.
\<close>

theorem C1_counterexample:
  "b_fecha_emision body_importe_cero \<noteq> JUndefined \<and> b_importe body_importe_cero \<noteq> JUndefined
   \<and> b_cliente_id body_importe_cero \<noteq> JUndefined \<and> b_estado body_importe_cero = JBool False
   \<and> createFactura pg_sample 7 body_importe_cero None db0 = ((400, Message Obligatorios), db0)"
  by (simp add: createFactura_def body_importe_cero_def)

text \<open>
  Claim C3. An invoice was created with a number and is in the database, right after its
  creation or later. A second request with the same \<^verbatim>\<open>numero\<close>, which passes the
  validation and whose values the server accepts, is answered 400 with the message of the
  repeated number, which is not the validation message. The controller does not look for
  the number first: the answer comes from the INSERT failing on
  \<^verbatim>\<open>facturas_numero_key\<close>. The rows are as before, the first invoice among them.
\<close>

theorem C3_createFactura_numero_repetido:
  assumes "createFactura g u1 b1 up1 d0 = ((201, Message_factura Factura_creada r1), d1)"
    and "numero r1 \<noteq> None"
    and "r1 \<in> set (facturas d)"
    and "b_numero b2 = b_numero b1"
    and "truthy (b_fecha_emision b2)" "truthy (b_importe b2)" "b_estado b2 \<noteq> JUndefined"
      "truthy (b_cliente_id b2)"
    and "bind_params g (seq d) u2 (createParams b2 up2) = Inr r2"
  shows "r1 \<in> set (facturas d1)
       \<and> createFactura g u2 b2 up2 d = ((400, Message Numero_repetido), d\<lparr>seq := Suc (seq d)\<rparr>)
       \<and> fst (insert_factura g u2 (createParams b2 up2) d) = Inl unique_violation
       \<and> facturas (snd (createFactura g u2 b2 up2 d)) = facturas d
       \<and> r1 \<in> set (facturas (snd (createFactura g u2 b2 up2 d)))"
proof -
  from assms(1) obtain row where
    row: "bind_params g (seq d0) u1 (createParams b1 up1) = Inr row"
      "Message_factura Factura_creada r1 = Message_factura Factura_creada row"
      "d1 = d0\<lparr>facturas := facturas d0 @ [row], seq := Suc (seq d0)\<rparr>"
    using createFactura_created by blast
  then have r1: "row = r1" and mem: "r1 \<in> set (facturas d1)"
    by simp_all
  obtain n where n: "numero r1 = Some n"
    using assms(2) by auto
  have "nullable (text_in g) (Fresh (js_or (b_numero b1) JNull)) = Inr (numero r1)"
    using bind_params_Inr(7) [OF row(1)] r1 by (simp add: createParams_numero)
  moreover have "nullable (text_in g) (Fresh (js_or (b_numero b2) JNull)) = Inr (numero r2)"
    using bind_params_Inr(7) [OF assms(9)] by (simp add: createParams_numero)
  ultimately have "numero r2 = Some n"
    using assms(4) n by simp
  then have taken: "numero_taken (facturas d) (numero r2)"
    using assms(3) n by (force simp: numero_taken_def)
  have 1: "createFactura g u2 b2 up2 d = ((400, Message Numero_repetido), d\<lparr>seq := Suc (seq d)\<rparr>)"
    using taken assms(5-9) by (simp add: createFactura_cases)
  have 2: "fst (insert_factura g u2 (createParams b2 up2) d) = Inl unique_violation"
    using taken assms(9) by (simp add: insert_factura_def)
  show ?thesis
    using 1 2 mem assms(3) by simp
qed

text \<open>The scenario's request, sent by user 7 and then by user 8.\<close>

theorem C3_witness:
  "createFactura pg_sample 7 body1 None db0 = ((201, Message_factura Factura_creada factura1), db1)
   \<and> factura1 \<in> set (facturas db1)
   \<and> createFactura pg_sample 8 body1 None db1 = ((400, Message Numero_repetido), db1\<lparr>seq := 3\<rparr>)
   \<and> facturas (snd (createFactura pg_sample 8 body1 None db1)) = [factura1]"
proof -
  have v: "numero factura1 \<noteq> None" "factura1 \<in> set (facturas db1)"
    "truthy (b_fecha_emision body1)" "truthy (b_importe body1)"
    "b_estado body1 \<noteq> JUndefined" "truthy (b_cliente_id body1)"
    by (simp_all add: factura1_def body1_def db1_def)
  show ?thesis
    using C3_createFactura_numero_repetido [OF run_body1 v(1,2) refl v(3-6) bind_body1_db1] run_body1
    by (simp add: db1_def)
qed

text \<open>
  Claim C10. A created invoice has \<^verbatim>\<open>numero\<close> NULL when the request's \<^verbatim>\<open>numero\<close> is
  the empty string, and likewise \<^verbatim>\<open>descripcion\<close> and the name of the uploaded file. A
  request with the empty string as \<^verbatim>\<open>numero\<close> is never answered with the message of the
  repeated number: when it passes the validation and the server accepts its values it is
  created with \<^verbatim>\<open>numero\<close> NULL, whatever rows there are.
\<close>

theorem C10_createFactura_cadena_vacia:
  "(createFactura g u b upload d = ((201, Message_factura m row), d') \<longrightarrow>
      (b_numero b = JStr [] \<longrightarrow> numero row = None)
      \<and> (b_descripcion b = JStr [] \<longrightarrow> descripcion row = None)
      \<and> (upload = Some [] \<longrightarrow> archivo row = None)
      \<and> facturas d' = facturas d @ [row])
   \<and> (b_numero b = JStr [] \<longrightarrow>
        fst (createFactura g u b upload d) \<noteq> (400, Message Numero_repetido))
   \<and> (b_numero b = JStr [] \<and> truthy (b_fecha_emision b) \<and> truthy (b_importe b)
        \<and> b_estado b \<noteq> JUndefined \<and> truthy (b_cliente_id b)
        \<and> bind_params g (seq d) u (createParams b upload) = Inr row' \<longrightarrow>
        numero row' = None
        \<and> createFactura g u b upload d =
            ((201, Message_factura Factura_creada row'),
             d\<lparr>facturas := facturas d @ [row'], seq := Suc (seq d)\<rparr>))"
proof (intro conjI impI)
  assume ok: "createFactura g u b upload d = ((201, Message_factura m row), d')"
  then obtain r where
    r: "bind_params g (seq d) u (createParams b upload) = Inr r"
      "Message_factura m row = Message_factura Factura_creada r"
      "d' = d\<lparr>facturas := facturas d @ [r], seq := Suc (seq d)\<rparr>"
    using createFactura_created by blast
  then have eq: "r = row" by simp
  show "facturas d' = facturas d @ [row]"
    using r(3) eq by simp
  { assume "b_numero b = JStr []"
    then show "numero row = None"
      using bind_params_Inr(7) [OF r(1)] eq by (simp add: createParams_numero js_or_def) }
  { assume "b_descripcion b = JStr []"
    then show "descripcion row = None"
      using bind_params_Inr(8) [OF r(1)] eq by (simp add: createParams_descripcion js_or_def) }
  { assume "upload = Some []"
    then show "archivo row = None"
      using bind_params_Inr(9) [OF r(1)] eq by (simp add: createParams_archivo js_or_def) }
next
  assume e: "b_numero b = JStr []"
  have "\<And>r. bind_params g (seq d) u (createParams b upload) = Inr r \<Longrightarrow> numero r = None"
    using e bind_params_Inr(7) by (fastforce simp: createParams_numero js_or_def)
  then show "fst (createFactura g u b upload d) \<noteq> (400, Message Numero_repetido)"
    by (auto simp: createFactura_cases numero_taken_def split: sum.splits)
next
  assume a: "b_numero b = JStr [] \<and> truthy (b_fecha_emision b) \<and> truthy (b_importe b)
        \<and> b_estado b \<noteq> JUndefined \<and> truthy (b_cliente_id b)
        \<and> bind_params g (seq d) u (createParams b upload) = Inr row'"
  then have n: "numero row' = None"
    using bind_params_Inr(7) [of g "seq d" u "createParams b upload" row']
    by (simp add: createParams_numero js_or_def)
  show "numero row' = None" by (rule n)
  show "createFactura g u b upload d =
            ((201, Message_factura Factura_creada row'),
             d\<lparr>facturas := facturas d @ [row'], seq := Suc (seq d)\<rparr>)"
    using a n by (simp add: createFactura_cases numero_taken_def)
qed

text \<open>Two invoices created with the empty string as number: both are stored with NULL.\<close>

theorem C10_witness:
  "createFactura pg_sample 7 body_sin_numero None db0 =
     ((201, Message_factura Factura_creada (factura_sin_numero 1)),
      \<lparr>facturas = [factura_sin_numero 1], clientes = [(5, ''Ana'')], seq = 2\<rparr>)
   \<and> numero (factura_sin_numero 1) = None \<and> descripcion (factura_sin_numero 1) = None
   \<and> createFactura pg_sample 7 body_sin_numero None
       \<lparr>facturas = [factura_sin_numero 1], clientes = [(5, ''Ana'')], seq = 2\<rparr> =
     ((201, Message_factura Factura_creada (factura_sin_numero 2)),
      \<lparr>facturas = [factura_sin_numero 1, factura_sin_numero 2], clientes = [(5, ''Ana'')],
       seq = 3\<rparr>)
   \<and> numero (factura_sin_numero 2) = None"
proof -
  let ?d = "\<lparr>facturas = [factura_sin_numero 1], clientes = [(5, ''Ana'')], seq = 2\<rparr>"
  have b: "bind_params pg_sample (seq ?d) 7 (createParams body_sin_numero None) =
      Inr (factura_sin_numero 2)"
    using bind_sin_numero by simp
  have v: "b_numero body_sin_numero = JStr []" "b_descripcion body_sin_numero = JStr []"
    "truthy (b_fecha_emision body_sin_numero)" "truthy (b_importe body_sin_numero)"
    "b_estado body_sin_numero \<noteq> JUndefined" "truthy (b_cliente_id body_sin_numero)"
    by (simp_all add: body_sin_numero_def)
  show ?thesis
    using C10_createFactura_cadena_vacia
      [of pg_sample 7 body_sin_numero None db0 Factura_creada "factura_sin_numero 1" ?d
        "factura_sin_numero 1"]
      C10_createFactura_cadena_vacia
      [of pg_sample 7 body_sin_numero None ?d Factura_creada "factura_sin_numero 2" _
        "factura_sin_numero 2"]
      run_sin_numero b v
    by simp
qed

subsection \<open>updateFactura\<close>

lemma select_factura1: "select_factura pg_sample ''1'' 7 db1 = Inr (Some factura1)"
  by (simp add: select_factura_def sample_simps db1_def factura1_def)

lemma run_update: "updateFactura pg_sample 7 ''1'' body_update None (db1, Map.empty) =
    ((200, Message_factura Factura_actualizada factura1_updated),
     (db1\<lparr>facturas := [factura1_updated]\<rparr>, Map.empty))"
  by (simp add: update_simps sample_simps db1_def factura1_def body_update_def
      factura1_updated_def)

lemma select_factura2: "select_factura pg_sample ''2'' 7 db2 = Inr (Some factura2)"
  by (simp add: select_factura_def sample_simps db2_def factura1_def factura2_def)

lemma run_update_false: "updateFactura pg_sample 7 ''2'' body_estado_false None (db2, Map.empty) =
    ((200, Message_factura Factura_actualizada (factura2\<lparr>estado := Some False\<rparr>)),
     (db2\<lparr>facturas := [factura1, factura2\<lparr>estado := Some False\<rparr>, factura3]\<rparr>, Map.empty))"
  by (simp add: update_simps sample_simps db2_def factura1_def factura2_def factura3_def
      body_estado_false_def)

text \<open>
  Claim C2. When \<^verbatim>\<open>updateFactura\<close> updates an invoice of the user, the stored
  \<^verbatim>\<open>estado\<close>, \<^verbatim>\<open>numero\<close> and \<^verbatim>\<open>descripcion\<close> are what the server reads from the
  request's value whenever that value is not \<^verbatim>\<open>undefined\<close> (NULL for \<^verbatim>\<open>null\<close>; also for
  \<^verbatim>\<open>false\<close>, \<^verbatim>\<open>0\<close> and the empty string), and the prior value when it is
  \<^verbatim>\<open>undefined\<close>. The stored \<^verbatim>\<open>importe\<close>, \<^verbatim>\<open>fecha_emision\<close> and \<^verbatim>\<open>cliente_id\<close> are
  what the server reads from the request's value when that value is truthy, and the prior
  value otherwise, so for \<^verbatim>\<open>importe: 0\<close> too. The row returned is the row then stored.
\<close>

theorem C2_updateFactura_precedencia:
  assumes "select_factura g i u d = Inr (Some old)"
    and "updateFactura g u i b upload (d, f) = ((200, Message_factura m row), (d', f'))"
  shows "(b_estado b = JUndefined \<longrightarrow> estado row = estado old)
       \<and> (b_estado b = JNull \<longrightarrow> estado row = None)
       \<and> (b_estado b \<noteq> JUndefined \<and> b_estado b \<noteq> JNull \<longrightarrow> estado row = bool_in g (b_estado b))
       \<and> (b_numero b = JUndefined \<longrightarrow> numero row = numero old)
       \<and> (b_numero b = JNull \<longrightarrow> numero row = None)
       \<and> (b_numero b \<noteq> JUndefined \<and> b_numero b \<noteq> JNull \<longrightarrow> numero row = text_in g (b_numero b))
       \<and> (b_descripcion b = JUndefined \<longrightarrow> descripcion row = descripcion old)
       \<and> (b_descripcion b = JNull \<longrightarrow> descripcion row = None)
       \<and> (b_descripcion b \<noteq> JUndefined \<and> b_descripcion b \<noteq> JNull \<longrightarrow>
            descripcion row = text_in g (b_descripcion b))
       \<and> (truthy (b_importe b) \<longrightarrow> numeric_in g (b_importe b) = Some (importe row))
       \<and> (\<not> truthy (b_importe b) \<longrightarrow> importe row = importe old)
       \<and> (truthy (b_fecha_emision b) \<longrightarrow> date_in g (b_fecha_emision b) = Some (fecha_emision row))
       \<and> (\<not> truthy (b_fecha_emision b) \<longrightarrow> fecha_emision row = fecha_emision old)
       \<and> (truthy (b_cliente_id b) \<longrightarrow> int_in g (b_cliente_id b) = cliente_id row)
       \<and> (\<not> truthy (b_cliente_id b) \<longrightarrow> cliente_id row = cliente_id old)
       \<and> id row = id old \<and> usuario_id row = u
       \<and> select_factura g i u d' = Inr (Some row)"
proof -
  from assms have
    upd: "update_factura g old (updateParams b old upload) d = Inr (row, d')"
    by (auto simp: updateFactura_def split: sum.splits)
  note bp = bind_params_Inr [OF update_factura_Inr(1) [OF upd]]
  have u: "usuario_id old = u"
    using select_factura_found [OF assms(1)] by blast
  have estado: "nullable (bool_in g) (defined_or_kept (b_estado b) (estado old)) = Inr (estado row)"
    and numero: "nullable (text_in g) (defined_or_kept (b_numero b) (numero old)) = Inr (numero row)"
    and descr: "nullable (text_in g) (defined_or_kept (b_descripcion b) (descripcion old))
                 = Inr (descripcion row)"
    and importe: "required (numeric_in g) (or_kept (b_importe b) (importe old)) = Inr (importe row)"
    and fecha: "required (date_in g) (or_kept (b_fecha_emision b) (fecha_emision old))
                 = Inr (fecha_emision row)"
    and cliente: "nullable (int_in g) (or_kept (b_cliente_id b) (cliente_id old))
                 = Inr (cliente_id row)"
    using bp(3-8) by (simp_all add: updateParams_def)
  have 1: "(b_estado b = JUndefined \<longrightarrow> estado row = estado old)
       \<and> (b_estado b = JNull \<longrightarrow> estado row = None)
       \<and> (b_estado b \<noteq> JUndefined \<and> b_estado b \<noteq> JNull \<longrightarrow> estado row = bool_in g (b_estado b))"
    using estado nullable_Fresh [of "bool_in g" "b_estado b" "estado row"]
    by (auto simp: defined_or_kept_def split: if_splits)
  have 2: "(b_numero b = JUndefined \<longrightarrow> numero row = numero old)
       \<and> (b_numero b = JNull \<longrightarrow> numero row = None)
       \<and> (b_numero b \<noteq> JUndefined \<and> b_numero b \<noteq> JNull \<longrightarrow> numero row = text_in g (b_numero b))"
    using numero nullable_Fresh [of "text_in g" "b_numero b" "numero row"]
    by (auto simp: defined_or_kept_def split: if_splits)
  have 3: "(b_descripcion b = JUndefined \<longrightarrow> descripcion row = descripcion old)
       \<and> (b_descripcion b = JNull \<longrightarrow> descripcion row = None)
       \<and> (b_descripcion b \<noteq> JUndefined \<and> b_descripcion b \<noteq> JNull \<longrightarrow>
            descripcion row = text_in g (b_descripcion b))"
    using descr nullable_Fresh [of "text_in g" "b_descripcion b" "descripcion row"]
    by (auto simp: defined_or_kept_def split: if_splits)
  have 4: "(truthy (b_importe b) \<longrightarrow> numeric_in g (b_importe b) = Some (importe row))
       \<and> (\<not> truthy (b_importe b) \<longrightarrow> importe row = importe old)"
    using importe required_Fresh [of "numeric_in g" "b_importe b" "importe row"]
    by (auto simp: or_kept_def split: if_splits)
  have 5: "(truthy (b_fecha_emision b) \<longrightarrow> date_in g (b_fecha_emision b) = Some (fecha_emision row))
       \<and> (\<not> truthy (b_fecha_emision b) \<longrightarrow> fecha_emision row = fecha_emision old)"
    using fecha required_Fresh [of "date_in g" "b_fecha_emision b" "fecha_emision row"]
    by (auto simp: or_kept_def split: if_splits)
  have 6: "(truthy (b_cliente_id b) \<longrightarrow> int_in g (b_cliente_id b) = cliente_id row)
       \<and> (\<not> truthy (b_cliente_id b) \<longrightarrow> cliente_id row = cliente_id old)"
    using cliente nullable_Fresh [of "int_in g" "b_cliente_id b" "cliente_id row"]
      truthy_defined [of "b_cliente_id b"]
    by (auto simp: or_kept_def split: if_splits)
  have 7: "id row = id old \<and> usuario_id row = u"
    using bp(1,2) u by simp
  have 8: "select_factura g i u d' = Inr (Some row)"
    using select_after_update [OF assms(1) upd] by simp
  show ?thesis
    using 1 2 3 4 5 6 7 8 by blast
qed

text \<open>
  The first invoice updated with \<^verbatim>\<open>estado: true\<close>, \<^verbatim>\<open>importe: 0\<close> and an empty
  \<^verbatim>\<open>descripcion\<close>: the amount stays 100, the description becomes the empty string, the
  number stays. The second invoice, which is paid, updated with \<^verbatim>\<open>estado: false\<close>: it
  is stored as unpaid.
\<close>

theorem C2_witness:
  "select_factura pg_sample ''1'' 7 db1 = Inr (Some factura1)
   \<and> updateFactura pg_sample 7 ''1'' body_update None (db1, Map.empty) =
       ((200, Message_factura Factura_actualizada factura1_updated),
        (db1\<lparr>facturas := [factura1_updated]\<rparr>, Map.empty))
   \<and> b_importe body_update = JNum 0 \<and> importe factura1_updated = importe factura1
   \<and> b_descripcion body_update = JStr [] \<and> descripcion factura1_updated = Some []
   \<and> b_numero body_update = JUndefined \<and> numero factura1_updated = numero factura1
   \<and> estado factura1_updated = bool_in pg_sample (b_estado body_update)
   \<and> select_factura pg_sample ''1'' 7 (db1\<lparr>facturas := [factura1_updated]\<rparr>) =
       Inr (Some factura1_updated)
   \<and> select_factura pg_sample ''2'' 7 db2 = Inr (Some factura2)
   \<and> estado factura2 = Some True \<and> b_estado body_estado_false = JBool False
   \<and> updateFactura pg_sample 7 ''2'' body_estado_false None (db2, Map.empty) =
       ((200, Message_factura Factura_actualizada (factura2\<lparr>estado := Some False\<rparr>)),
        (db2\<lparr>facturas := [factura1, factura2\<lparr>estado := Some False\<rparr>, factura3]\<rparr>, Map.empty))
   \<and> importe (factura2\<lparr>estado := Some False\<rparr>) = importe factura2"
  using C2_updateFactura_precedencia [OF select_factura1 run_update]
    C2_updateFactura_precedencia [OF select_factura2 run_update_false]
    select_factura1 run_update select_factura2 run_update_false
  by (simp add: body_update_def body_estado_false_def sample_text_def pg_sample_def factura2_def)

subsection \<open>deleteArchivoFactura\<close>

lemma select_con_archivo:
  "select_factura pg_sample ''1'' 7 db_archivo = Inr (Some factura_con_archivo)"
  by (simp add: select_factura_def sample_simps db_archivo_def factura_con_archivo_def factura1_def)

text \<open>
  Claim C5. For an invoice of the user: with no file name stored, the answer is 400 and
  database and upload directory are as before; with a file that \<^verbatim>\<open>fs.unlink\<close> fails to
  remove, the answer is 500 and both are as before; with a file that is removed, the answer
  is 200 and the invoice's \<^verbatim>\<open>archivo\<close> is NULL. Whatever the answer, unless it is that 200,
  nothing has changed.
\<close>

theorem C5_deleteArchivoFactura_casos:
  assumes "select_factura g i u d = Inr (Some fac)"
  shows "(archivo fac = None \<or> archivo fac = Some [] \<longrightarrow>
            deleteArchivoFactura g u i (d, f) = ((400, Message Sin_archivo), (d, f)))
       \<and> (archivo fac = Some a \<and> a \<noteq> [] \<and> unlink f (u, a) = None \<longrightarrow>
            deleteArchivoFactura g u i (d, f) = ((500, Message Error_archivo), (d, f)))
       \<and> (archivo fac = Some a \<and> a \<noteq> [] \<and> unlink f (u, a) = Some f' \<longrightarrow>
            deleteArchivoFactura g u i (d, f) =
              ((200, Message Archivo_eliminado), (clear_archivo fac d, f'))
            \<and> select_factura g i u (clear_archivo fac d) = Inr (Some (fac\<lparr>archivo := None\<rparr>)))
       \<and> (fst (deleteArchivoFactura g u i (d, f)) \<noteq> (200, Message Archivo_eliminado) \<longrightarrow>
            snd (deleteArchivoFactura g u i (d, f)) = (d, f))"
  using assms select_after_clear [OF assms]
  by (auto simp: deleteArchivoFactura_def split: option.splits)

text \<open>
  The first invoice without a file; with a file that cannot be removed; with a file that is
  missing; with a file that is removed.
\<close>

theorem C5_witness:
  "deleteArchivoFactura pg_sample 7 ''1'' (db1, [(7, ''a.pdf'') \<mapsto> Plain]) =
     ((400, Message Sin_archivo), (db1, [(7, ''a.pdf'') \<mapsto> Plain]))
   \<and> deleteArchivoFactura pg_sample 7 ''1'' (db_archivo, [(7, ''a.pdf'') \<mapsto> Locked]) =
     ((500, Message Error_archivo), (db_archivo, [(7, ''a.pdf'') \<mapsto> Locked]))
   \<and> deleteArchivoFactura pg_sample 7 ''1'' (db_archivo, Map.empty) =
     ((500, Message Error_archivo), (db_archivo, Map.empty))
   \<and> deleteArchivoFactura pg_sample 7 ''1'' (db_archivo, [(7, ''a.pdf'') \<mapsto> Plain]) =
     ((200, Message Archivo_eliminado), (db1, Map.empty))"
proof -
  have c: "clear_archivo factura_con_archivo db_archivo = db1"
    by (simp add: clear_archivo_def db_archivo_def db1_def factura_con_archivo_def factura1_def)
  have a: "archivo factura1 = None" "archivo factura_con_archivo = Some ''a.pdf''"
    by (simp_all add: factura_con_archivo_def factura1_def)
  have u: "unlink [(7, ''a.pdf'') \<mapsto> Locked] (7, ''a.pdf'') = None"
    "unlink Map.empty (7, ''a.pdf'') = None"
    "unlink [(7, ''a.pdf'') \<mapsto> Plain] (7, ''a.pdf'') = Some Map.empty"
    by (simp_all add: unlink_def)
  show ?thesis
    using
      C5_deleteArchivoFactura_casos
        [where f = "[(7, ''a.pdf'') \<mapsto> Plain]", OF select_factura1]
      C5_deleteArchivoFactura_casos
        [where a = "''a.pdf''" and f = "[(7, ''a.pdf'') \<mapsto> Locked]", OF select_con_archivo]
      C5_deleteArchivoFactura_casos
        [where a = "''a.pdf''" and f = Map.empty, OF select_con_archivo]
      C5_deleteArchivoFactura_casos
        [where a = "''a.pdf''" and f = "[(7, ''a.pdf'') \<mapsto> Plain]" and f' = Map.empty,
         OF select_con_archivo]
    by (simp add: c a u)
qed

subsection \<open>getFacturasByUser\<close>

lemma set_insert_by: "set (insert_by le x xs) = insert x (set xs)"
  by (induction xs) auto

lemma set_sort_by: "set (sort_by le xs) = set xs"
  unfolding sort_by_def by (induction xs) (auto simp: set_insert_by)



lemma whereClause_owner: "whereClause u s r \<Longrightarrow> usuario_id r = u"
  by (auto simp: whereClause_def split: if_splits)

lemma usuario_id_join: "usuario_id (join_cliente d r) = usuario_id r"
  by (simp add: join_cliente_def factura.extend_def)

lemma usuario_id_with_url: "usuario_id (with_url base r) = usuario_id r"
  by (simp add: with_url_def factura_joined.extend_def)

lemma paginatedQuery_rows:
  assumes "paginatedQuery g u s oc limit offset d = Inr rows"
  shows "set rows \<subseteq> join_cliente d ` {r \<in> set (facturas d). whereClause u s r}"
proof -
  from assms obtain le where
    "rows = take (nat limit) (drop (nat offset)
       (sort_by le (map (join_cliente d) (filter (whereClause u s) (facturas d)))))"
    by (auto simp: paginatedQuery_def split: option.splits if_splits)
  then have "set rows \<subseteq> set (sort_by le (map (join_cliente d) (filter (whereClause u s) (facturas d))))"
    by (metis set_take_subset set_drop_subset subset_trans)
  then show ?thesis
    by (auto simp: set_sort_by)
qed


lemma getFacturasByUser_ok:
  assumes "getFacturasByUser g base u q d = (200, Facturas_total rows n)"
  shows "\<exists>oc limit offset rows'.
           paginatedQuery g u (search_of q) oc limit offset d = Inr rows'
           \<and> rows = map (with_url base) rows' \<and> n = totalCount u d"
  using assms by (auto simp: getFacturasByUser_def Let_def split: sum.splits)

lemma run_list: "getFacturasByUser pg_sample None 7 (query_search ''inv-1'') db2 =
    (200, Facturas_total [factura1_out] 2)"
  by code_simp




text \<open>
  Claim C4. Whatever \<^verbatim>\<open>page\<close>, \<^verbatim>\<open>limit\<close>, \<^verbatim>\<open>sortField\<close>, \<^verbatim>\<open>sortOrder\<close> and
  \<^verbatim>\<open>search\<close> are, and however the server orders the rows: every invoice in a page is a
  stored invoice of the requesting user that satisfies the whole \<^verbatim>\<open>WHERE\<close> clause, the
  owner's condition and, with it, the search's.
\<close>

theorem C4_getFacturasByUser_propias:
  assumes "getFacturasByUser g base u q d = (200, Facturas_total rows n)"
  shows "\<forall>r \<in> set rows.
           usuario_id r = u
           \<and> (\<exists>s \<in> set (facturas d). r = with_url base (join_cliente d s)
                 \<and> usuario_id s = u \<and> whereClause u (search_of q) s)"
proof
  fix r assume r: "r \<in> set rows"
  from getFacturasByUser_ok [OF assms] obtain oc limit offset rows' where
    p: "paginatedQuery g u (search_of q) oc limit offset d = Inr rows'"
    and rows: "rows = map (with_url base) rows'"
    by blast
  from r rows obtain j where j: "j \<in> set rows'" "r = with_url base j"
    by auto
  with paginatedQuery_rows [OF p] obtain s where
    s: "s \<in> set (facturas d)" "whereClause u (search_of q) s" "j = join_cliente d s"
    by auto
  have "usuario_id s = u"
    using s(2) by (rule whereClause_owner)
  then show "usuario_id r = u
           \<and> (\<exists>s \<in> set (facturas d). r = with_url base (join_cliente d s)
                 \<and> usuario_id s = u \<and> whereClause u (search_of q) s)"
    using s j by (auto simp: usuario_id_join usuario_id_with_url)
qed

text \<open>
  User 7 searches \<^verbatim>\<open>inv-1\<close>: the page has the user's invoice \<^verbatim>\<open>INV-1\<close> and not
  \<^verbatim>\<open>INV-19\<close> of user 8.
\<close>

theorem C4_witness:
  "getFacturasByUser pg_sample None 7 (query_search ''inv-1'') db2 =
     (200, Facturas_total [factura1_out] 2)
   \<and> usuario_id factura1_out = 7
   \<and> factura3 \<in> set (facturas db2) \<and> usuario_id factura3 = 8"
  using C4_getFacturasByUser_propias [OF run_list] run_list
  by (simp add: db2_def factura3_def)

text \<open>
  Claim C6. The total of a list response is the number of all invoices of the user,
  whatever the search; and there is a request with a search whose total is greater than the
  number of the user's invoices that match.
\<close>

theorem C6_getFacturasByUser_total:
  "(getFacturasByUser g base u q d = (200, Facturas_total rows n) \<longrightarrow>
      n = int (length (filter (\<lambda>r. usuario_id r = u) (facturas d))))
   \<and> (\<exists>q' rows' n'. search_of q' \<noteq> []
         \<and> getFacturasByUser pg_sample None 7 q' db2 = (200, Facturas_total rows' n')
         \<and> int (length (filter (whereClause 7 (search_of q')) (facturas db2))) < n')"
proof
  show "getFacturasByUser g base u q d = (200, Facturas_total rows n) \<longrightarrow>
      n = int (length (filter (\<lambda>r. usuario_id r = u) (facturas d)))"
    using getFacturasByUser_ok [of g base u q d rows n] by (auto simp: totalCount_def)
  have 1: "search_of (query_search ''inv-1'') \<noteq> []"
    by code_simp
  have 2: "int (length (filter (whereClause 7 (search_of (query_search ''inv-1''))) (facturas db2))) < 2"
    by code_simp
  show "\<exists>q' rows' n'. search_of q' \<noteq> []
         \<and> getFacturasByUser pg_sample None 7 q' db2 = (200, Facturas_total rows' n')
         \<and> int (length (filter (whereClause 7 (search_of q')) (facturas db2))) < n'"
    using 1 2 run_list by blast
qed

text \<open>User 7 searches \<^verbatim>\<open>inv-1\<close>: one invoice matches, the total is 2.\<close>

theorem C6_witness:
  "getFacturasByUser pg_sample None 7 (query_search ''inv-1'') db2 =
     (200, Facturas_total [factura1_out] 2)
   \<and> (2::int) = int (length (filter (\<lambda>r. usuario_id r = 7) (facturas db2)))
   \<and> length (filter (whereClause 7 (search_of (query_search ''inv-1''))) (facturas db2)) = 1"
proof -
  have "length (filter (whereClause 7 (search_of (query_search ''inv-1''))) (facturas db2)) = 1"
    by code_simp
  then show ?thesis
    using C6_getFacturasByUser_total [of pg_sample None 7 "query_search ''inv-1''" db2
        "[factura1_out]" 2] run_list
    by simp
qed

subsection \<open>The search\<close>










subsection \<open>getResumenFacturasPorYear\<close>

lemma getResumen_cases:
  "getResumenFacturasPorYear u y d =
     (if parseInt y = None \<or> parseInt y = Some 0 then (400, Message Anio_invalido)
      else (200, Resumen_anual (the (parseInt y))
              \<lparr>r_totalFacturas = total_facturas (resumenQuery u (the (parseInt y)) d),
               r_pagadas = q_pagadas (resumenQuery u (the (parseInt y)) d),
               r_noPagadas = q_no_pagadas (resumenQuery u (the (parseInt y)) d),
               r_totalImporte = total_importe (resumenQuery u (the (parseInt y)) d),
               r_importePagadas = importe_pagadas (resumenQuery u (the (parseInt y)) d),
               r_importeNoPagadas = importe_no_pagadas (resumenQuery u (the (parseInt y)) d),
               r_promedioImporte = or_zero (promedio_importe (resumenQuery u (the (parseInt y)) d)),
               r_promedioPagadas = or_zero (promedio_pagadas (resumenQuery u (the (parseInt y)) d)),
               r_promedioNoPagadas =
                 or_zero (promedio_no_pagadas (resumenQuery u (the (parseInt y)) d))\<rparr>
              (agrupadoMensual (mensualQuery u (the (parseInt y)) d))))"
  by (auto simp: getResumenFacturasPorYear_def Let_def split: option.splits)







text \<open>
  Claim C9, as the code has it. The answer is 400, with the message of the invalid year,
  exactly when \<^verbatim>\<open>parseInt\<close> of the parameter is NaN or 0. Any other year, a negative one
  too, is answered 200 with the summary of that year.
\<close>

theorem C9_getResumen_anio:
  "((fst (getResumenFacturasPorYear u y d) = 400) = (parseInt y = None \<or> parseInt y = Some 0))
   \<and> (fst (getResumenFacturasPorYear u y d) = 400 \<longrightarrow>
        getResumenFacturasPorYear u y d = (400, Message Anio_invalido))
   \<and> (parseInt y = Some k \<and> k \<noteq> 0 \<longrightarrow>
        (\<exists>res. getResumenFacturasPorYear u y d =
                 (200, Resumen_anual k res (agrupadoMensual (mensualQuery u k d)))
               \<and> r_totalFacturas res = int (length (facturas_del_anio u k d))))"
  by (auto simp: getResumen_cases resumenQuery_def Let_def sql_count_def)

text \<open>The years \<^verbatim>\<open>2024\<close>, \<^verbatim>\<open>abc\<close> and \<^verbatim>\<open>0\<close>.\<close>

theorem C9_witness:
  "parseInt (Some ''2024'') = Some 2024
   \<and> fst (getResumenFacturasPorYear 8 (Some ''2024'') db2) \<noteq> 400
   \<and> parseInt (Some ''abc'') = None
   \<and> getResumenFacturasPorYear 8 (Some ''abc'') db2 = (400, Message Anio_invalido)
   \<and> parseInt (Some ''0'') = Some 0
   \<and> getResumenFacturasPorYear 8 (Some ''0'') db2 = (400, Message Anio_invalido)"
proof -
  have p: "parseInt (Some ''2024'') = Some 2024" "parseInt (Some ''abc'') = None"
    "parseInt (Some ''0'') = Some 0"
    by code_simp+
  show ?thesis
    using p C9_getResumen_anio [of 8 "Some ''2024''" db2 2024]
      C9_getResumen_anio [of 8 "Some ''abc''" db2] C9_getResumen_anio [of 8 "Some ''0''" db2]
    by auto
qed

text \<open>
  Claim C9 as stated fails: \<^verbatim>\<open>-5\<close> is not a positive integer, and the request is
  answered 200.
\<close>

theorem C9_counterexample:
  "\<not> parseable_positive (Some ''-5'')
   \<and> fst (getResumenFacturasPorYear 7 (Some ''-5'') db2) = 200"
  by code_simp

end
